theory Spec2Isabelle
  imports Main
begin

section \<open>The users table of the dashboard\<close>

text \<open>
  A shallow embedding of \<^verbatim>\<open>app/dashboard/src/components/users-table/users-table.tsx\<close>:
  the React component \<^verbatim>\<open>UsersTable\<close> with its two event handlers
  (\<^verbatim>\<open>handleSort\<close>, \<^verbatim>\<open>handleStatusFilter\<close>) and its one effect, which refetches the
  users whenever the filters object changes.

  The component owns no state. It reads \<^verbatim>\<open>filters\<close> from the dashboard store and
  writes through the store's operations \<^verbatim>\<open>onFilterChange\<close> and \<^verbatim>\<open>refetchUsers\<close>.
  Both operations are external, so the embedding takes them as parameters: state
  transformers over a store type \<open>'s\<close> that is left open.
\<close>

subsection \<open>JavaScript values\<close>

text \<open>
  \<^verbatim>\<open>handleStatusFilter\<close> declares its parameter as \<^verbatim>\<open>any\<close>, so the handler is modelled
  on JavaScript values and not on strings alone. The handler looks at a value in two
  ways only: it compares it with the string literal \<^verbatim>\<open>"0"\<close> by \<^verbatim>\<open>===\<close>, and it reads
  the property \<^verbatim>\<open>length\<close>. The datatype covers the kinds of value on which these two
  observations differ: \<^verbatim>\<open>undefined\<close> and \<^verbatim>\<open>null\<close> (reading a property throws), booleans
  (no such property), strings and arrays (a length). Numbers are left out; like
  booleans they have no property \<^verbatim>\<open>length\<close>.

  A JavaScript string is a sequence of code units. The handlers only compare strings,
  concatenate them and test a length against zero, so the width of a code unit plays
  no role and \<^typ>\<open>string\<close> stands for it.
\<close>

datatype js_error = TypeError

datatype js_value =
    JUndefined
  | JNull
  | JBoolean bool
  | JString string
  | JArray "js_value list"

text \<open>\<^verbatim>\<open>value === lit\<close> for a string literal: strict equality never converts.\<close>

fun strict_eq_string :: "js_value \<Rightarrow> string \<Rightarrow> bool" where
  "strict_eq_string (JString s) lit = (s = lit)"
| "strict_eq_string _ lit = False"

text \<open>
  \<^verbatim>\<open>value.length\<close>: a TypeError on \<^verbatim>\<open>undefined\<close> and \<^verbatim>\<open>null\<close>, the number of code
  units of a string, the number of elements of an array, and \<^verbatim>\<open>undefined\<close> (here
  \<open>None\<close>) where the property does not exist.
\<close>

fun get_length :: "js_value \<Rightarrow> js_error + nat option" where
  "get_length JUndefined = Inl TypeError"
| "get_length JNull = Inl TypeError"
| "get_length (JBoolean b) = Inr None"
| "get_length (JString s) = Inr (Some (length s))"
| "get_length (JArray xs) = Inr (Some (length xs))"

text \<open>
  \<^verbatim>\<open>len > 0\<close> for what \<^verbatim>\<open>value.length\<close> gave: \<^verbatim>\<open>undefined > 0\<close> is false, since
  \<^verbatim>\<open>undefined\<close> converts to NaN.
\<close>

fun greater_than_zero :: "nat option \<Rightarrow> bool" where
  "greater_than_zero None = False"
| "greater_than_zero (Some n) = (0 < n)"

subsection \<open>Filters and filter updates\<close>

text \<open>
  The type of \<^verbatim>\<open>filters\<close> is declared by the dashboard store, outside this file. The
  component reads the field \<^verbatim>\<open>sort\<close> and writes \<^verbatim>\<open>sort\<close> and \<^verbatim>\<open>status\<close>; a field that
  is not set is \<^verbatim>\<open>undefined\<close>, here \<open>None\<close>. Every function below works on the
  record scheme, so the store may keep any further fields.
\<close>

record filters =
  filters_sort :: "string option"
  filters_status :: "string option"

text \<open>
  The argument of \<^verbatim>\<open>onFilterChange\<close> is an object literal: its property names, in the
  order written, each with its value. A property that is present with the value
  \<^verbatim>\<open>undefined\<close> is not the same as an absent one, so the list keeps it.
\<close>

type_synonym partial_filters = "(string \<times> js_value) list"

subsection \<open>The handlers\<close>

text \<open>
  \<^verbatim>\<open>
  const handleSort = (column: string) => {
    let newSort: string;
    if (filters.sort === column) {
      newSort = "-" + column;
    } else if (filters.sort === "-" + column) {
      newSort = "-created_at";
    } else {
      newSort = column;
    }
    onFilterChange({ sort: newSort });
  };
  \<close>
  \<open>newSort\<close> is the value of the local variable when the handler reaches its last
  line; \<open>filters\<close> is the object the enclosing render read from the store.
\<close>

definition newSort :: "'a filters_scheme \<Rightarrow> string \<Rightarrow> string" where
  "newSort filters column =
     (if filters_sort filters = Some column then ''-'' @ column
      else if filters_sort filters = Some (''-'' @ column) then ''-created_at''
      else column)"

definition handleSort ::
  "(partial_filters \<Rightarrow> 's \<Rightarrow> 's) \<Rightarrow> 'a filters_scheme \<Rightarrow> string \<Rightarrow> 's \<Rightarrow> 's" where
  "handleSort onFilterChange filters column =
     onFilterChange [(''sort'', JString (newSort filters column))]"

text \<open>
  \<^verbatim>\<open>
  const handleStatusFilter = (value: any) => {
    const newValue = value === "0" ? "" : value;
    onFilterChange({
      status: value.length > 0 ? newValue : undefined,
    });
  };
  \<close>
  The argument object is built before the call, so a TypeError raised by
  \<^verbatim>\<open>value.length\<close> leaves the handler before \<^verbatim>\<open>onFilterChange\<close> is reached: the
  result \<open>Inl TypeError\<close> stands for "thrown, store untouched".
\<close>

definition handleStatusFilter ::
  "(partial_filters \<Rightarrow> 's \<Rightarrow> 's) \<Rightarrow> js_value \<Rightarrow> 's \<Rightarrow> js_error + 's" where
  "handleStatusFilter onFilterChange value s =
     (let newValue = (if strict_eq_string value ''0'' then JString '''' else value) in
      case get_length value of
        Inl e \<Rightarrow> Inl e
      | Inr len \<Rightarrow>
          Inr (onFilterChange
                 [(''status'', if greater_than_zero len then newValue else JUndefined)] s))"

subsection \<open>A store that records the requests it receives\<close>

text \<open>
  To count requests, the store type is instantiated with the list of requests received
  so far, oldest first.
\<close>

datatype call = OnFilterChange partial_filters | RefetchUsers

definition log_onFilterChange :: "partial_filters \<Rightarrow> call list \<Rightarrow> call list" where
  "log_onFilterChange p log = log @ [OnFilterChange p]"

definition log_refetchUsers :: "call list \<Rightarrow> call list" where
  "log_refetchUsers log = log @ [RefetchUsers]"

subsection \<open>The refetch trigger\<close>

text \<open>
  \<^verbatim>\<open>
  useEffect(() => {
    useDashboard.getState().refetchUsers();
  }, [filters]);
  \<close>
  \<^verbatim>\<open>useEffect\<close> is React's. Its documented contract: the effect runs after the
  first render that is committed (the mount), and after every later committed render
  in which some dependency differs from its value at the previous committed render,
  compared with \<^verbatim>\<open>Object.is\<close>. The hook keeps the dependencies of the last committed
  render; before the mount it holds none.

  \<^verbatim>\<open>Object.is\<close> on two objects compares their identity and never their contents. An
  object is therefore modelled by its address together with its contents, and only
  the address is compared.
\<close>

datatype 'a js_object = Object (object_address: nat) (object_fields: 'a)

definition object_is :: "'a js_object \<Rightarrow> 'a js_object \<Rightarrow> bool" where
  "object_is x y = (object_address x = object_address y)"

definition areHookInputsEqual :: "'a js_object list \<Rightarrow> 'a js_object list \<Rightarrow> bool" where
  "areHookInputsEqual nextDeps prevDeps = list_all2 object_is nextDeps prevDeps"

text \<open>
  One committed render, seen from the hook: \<open>prev\<close> holds the dependencies of the
  last committed render, the result holds the store after the effect (if it ran) and
  the dependencies now remembered.
\<close>

definition useEffect ::
  "('s \<Rightarrow> 's) \<Rightarrow> 'a js_object list \<Rightarrow> 'a js_object list option \<Rightarrow> 's
     \<Rightarrow> 's \<times> 'a js_object list option" where
  "useEffect effect deps prev s =
     (case prev of
        None \<Rightarrow> (effect s, Some deps)
      | Some prevDeps \<Rightarrow>
          if areHookInputsEqual deps prevDeps then (s, Some deps)
          else (effect s, Some deps))"

text \<open>The effect of \<^verbatim>\<open>UsersTable\<close>: \<open>filters\<close> is the object the render read from the store.\<close>

definition refetch_trigger ::
  "('s \<Rightarrow> 's) \<Rightarrow> 'a js_object \<Rightarrow> 'a js_object list option \<Rightarrow> 's
     \<Rightarrow> 's \<times> 'a js_object list option" where
  "refetch_trigger refetchUsers filters = useEffect refetchUsers [filters]"

text \<open>
  A run of committed renders, oldest first, each with the filters object the store held
  at that render.
\<close>

fun renders ::
  "('s \<Rightarrow> 's) \<Rightarrow> 'a js_object list \<Rightarrow> 'a js_object list option \<Rightarrow> 's
     \<Rightarrow> 's \<times> 'a js_object list option" where
  "renders refetchUsers [] prev s = (s, prev)"
| "renders refetchUsers (filters # rest) prev s =
     (case refetch_trigger refetchUsers filters prev s of
        (s', prev') \<Rightarrow> renders refetchUsers rest prev' s')"

text \<open>
  The number of renders in a run that read a filters object at another address than
  the render before them; \<open>current\<close> is the object of the render before the run.
\<close>

fun reference_changes :: "'a js_object \<Rightarrow> 'a js_object list \<Rightarrow> nat" where
  "reference_changes current [] = 0"
| "reference_changes current (filters # rest) =
     (if object_address filters = object_address current then 0 else 1)
       + reference_changes filters rest"




subsection \<open>The sort descriptor\<close>

text \<open>
  The invariant the specification gives for \<^verbatim>\<open>sort\<close>: a bare field name, or a bare
  field name behind one negation marker \<^verbatim>\<open>"-"\<close>. A field name is bare when it is not
  empty and does not start with the marker.
\<close>

fun bare_field :: "string \<Rightarrow> bool" where
  "bare_field [] = False"
| "bare_field (c # cs) = (c \<noteq> CHR ''-'')"

fun valid_sort :: "string \<Rightarrow> bool" where
  "valid_sort [] = False"
| "valid_sort (c # cs) = (if c = CHR ''-'' then bare_field cs else True)"

subsection \<open>The column builder\<close>

text \<open>
  Modelled from the spec: \<^verbatim>\<open>setupColumns\<close> is defined in
  \<^verbatim>\<open>components/users-table/columns\<close>, which is not among the sources; the component
  only calls it. The specification describes it as a pure function of the translation
  function, the text direction, the two handlers and the current filters, which
  returns an ordered list of column descriptors and has no failure mode. A column
  descriptor is (key, header label, sort state, click handler, optional filter
  control). The specification does not list the columns, so their keys, each with
  the flag "carries the status filter control", are a parameter.
\<close>

datatype text_direction = Ltr | Rtl

datatype sort_state = Unsorted | Ascending | Descending

record 's column_descriptor =
  column_key :: string
  header_label :: string
  column_sort_state :: sort_state
  click_handler :: "'s \<Rightarrow> 's"
  filter_control :: "(js_value \<Rightarrow> 's \<Rightarrow> js_error + 's) option"

text \<open>
  Modelled from the spec: the sort state of a column, read off \<^verbatim>\<open>filters.sort\<close> as the
  data model reads a sort descriptor: the key itself is ascending, the key behind the
  marker is descending, anything else (\<^verbatim>\<open>undefined\<close> included) leaves the column
  unsorted.
\<close>

definition sort_state_of :: "'a filters_scheme \<Rightarrow> string \<Rightarrow> sort_state" where
  "sort_state_of filters key =
     (if filters_sort filters = Some key then Ascending
      else if filters_sort filters = Some (''-'' @ key) then Descending
      else Unsorted)"

text \<open>
  Modelled from the spec: one descriptor per column, in the order of the columns. The
  result is a sum so that "never throws" is a statement about it.
\<close>

definition setupColumns ::
  "(string \<times> bool) list \<Rightarrow> (string \<Rightarrow> string) \<Rightarrow> text_direction
     \<Rightarrow> (string \<Rightarrow> 's \<Rightarrow> 's) \<Rightarrow> 'a filters_scheme
     \<Rightarrow> (js_value \<Rightarrow> 's \<Rightarrow> js_error + 's)
     \<Rightarrow> js_error + 's column_descriptor list" where
  "setupColumns table t dir handleSort' filters handleStatusFilter' =
     Inr (map (\<lambda>(key, with_filter).
                 \<lparr>column_key = key,
                  header_label = t key,
                  column_sort_state = sort_state_of filters key,
                  click_handler = handleSort' key,
                  filter_control = (if with_filter then Some handleStatusFilter' else None)\<rparr>)
              table)"

text \<open>
  The call site in \<^verbatim>\<open>UsersTable\<close>:
  \<^verbatim>\<open>
  const columns = setupColumns({ t, dir, handleSort, filters, handleStatusFilter });
  \<close>
  The handlers are passed as closures over the \<open>filters\<close> and the \<open>onFilterChange\<close>
  of this render; building the argument runs neither of them.
\<close>

definition UsersTable_columns ::
  "(string \<times> bool) list \<Rightarrow> (string \<Rightarrow> string) \<Rightarrow> text_direction
     \<Rightarrow> (partial_filters \<Rightarrow> 's \<Rightarrow> 's) \<Rightarrow> 'a filters_scheme
     \<Rightarrow> js_error + 's column_descriptor list" where
  "UsersTable_columns table t dir onFilterChange filters =
     setupColumns table t dir (handleSort onFilterChange filters) filters
       (handleStatusFilter onFilterChange)"

section \<open>The sort toggle\<close>

text \<open>
  C1. For every target column \<open>column\<close> the handler emits exactly one filter update,
  \<open>{sort: next}\<close>, where \<open>next\<close> follows from the current sort by three cases: the
  current sort is the column, and \<open>next\<close> is \<open>"-" + column\<close>; the current sort is
  \<open>"-" + column\<close>, and \<open>next\<close> is \<open>"-created_at"\<close>; the current sort is anything else,
  \<^verbatim>\<open>undefined\<close> included, and \<open>next\<close> is the column. This holds whatever the store does
  with the update.
\<close>

theorem handleSort_three_cases:
  "(filters_sort filters = Some column \<longrightarrow>
      handleSort onFilterChange filters column s
        = onFilterChange [(''sort'', JString (''-'' @ column))] s) \<and>
   (filters_sort filters = Some (''-'' @ column) \<longrightarrow>
      handleSort onFilterChange filters column s
        = onFilterChange [(''sort'', JString ''-created_at'')] s) \<and>
   (filters_sort filters \<noteq> Some column \<and> filters_sort filters \<noteq> Some (''-'' @ column) \<longrightarrow>
      handleSort onFilterChange filters column s
        = onFilterChange [(''sort'', JString column)] s)"
  by (simp add: handleSort_def newSort_def)

theorem handleSort_three_cases_witness:
  "handleSort log_onFilterChange
      \<lparr>filters_sort = Some ''username'', filters_status = None\<rparr> ''username'' []
     = [OnFilterChange [(''sort'', JString ''-username'')]] \<and>
   handleSort log_onFilterChange
      \<lparr>filters_sort = Some ''-username'', filters_status = None\<rparr> ''username'' []
     = [OnFilterChange [(''sort'', JString ''-created_at'')]] \<and>
   handleSort log_onFilterChange
      \<lparr>filters_sort = Some ''expire'', filters_status = None\<rparr> ''username'' []
     = [OnFilterChange [(''sort'', JString ''username'')]] \<and>
   handleSort log_onFilterChange
      \<lparr>filters_sort = None, filters_status = None\<rparr> ''username'' []
     = [OnFilterChange [(''sort'', JString ''username'')]]"
  using
    handleSort_three_cases [of "\<lparr>filters_sort = Some ''username'', filters_status = None\<rparr>"
      "''username''" log_onFilterChange "[]"]
    handleSort_three_cases [of "\<lparr>filters_sort = Some ''-username'', filters_status = None\<rparr>"
      "''username''" log_onFilterChange "[]"]
    handleSort_three_cases [of "\<lparr>filters_sort = Some ''expire'', filters_status = None\<rparr>"
      "''username''" log_onFilterChange "[]"]
    handleSort_three_cases [of "\<lparr>filters_sort = None, filters_status = None\<rparr>"
      "''username''" log_onFilterChange "[]"]
  by (simp add: log_onFilterChange_def)

lemma valid_sort_iff:
  "valid_sort s = (bare_field s \<or> (\<exists>n. bare_field n \<and> s = ''-'' @ n))"
  by (cases s) auto

text \<open>
  C6. The handler keeps the invariant of the sort descriptor: when the target column
  is a bare field name, the sort value it emits is a bare field name or a bare field
  name behind exactly one marker \<open>"-"\<close>, whatever the current sort is. A doubly
  negated name is never emitted.
\<close>

theorem handleSort_keeps_sort_invariant:
  assumes "bare_field column"
  shows "handleSort onFilterChange filters column s
           = onFilterChange [(''sort'', JString (newSort filters column))] s
         \<and> valid_sort (newSort filters column)
         \<and> (bare_field (newSort filters column)
              \<or> (\<exists>n. bare_field n \<and> newSort filters column = ''-'' @ n))
         \<and> take 2 (newSort filters column) \<noteq> ''--''"
proof -
  obtain c cs where col: "column = c # cs" and c: "c \<noteq> CHR ''-''"
    using assms by (cases column) auto
  have v: "valid_sort (newSort filters column)"
    using col c by (simp add: newSort_def)
  have d: "take 2 (newSort filters column) \<noteq> ''--''"
    using col c by (simp add: newSort_def)
  show ?thesis
    using v d valid_sort_iff [of "newSort filters column"]
    by (simp add: handleSort_def)
qed

theorem handleSort_keeps_sort_invariant_witness:
  "bare_field ''username'' \<and>
   handleSort log_onFilterChange
      \<lparr>filters_sort = Some ''username'', filters_status = None\<rparr> ''username'' []
     = [OnFilterChange [(''sort'', JString ''-username'')]] \<and>
   valid_sort ''-username'' \<and>
   valid_sort (newSort \<lparr>filters_sort = Some ''-username'', filters_status = None\<rparr> ''username'') \<and>
   valid_sort (newSort \<lparr>filters_sort = None, filters_status = None\<rparr> ''username'')"
proof -
  have h: "bare_field ''username''" by simp
  show ?thesis
    using h
      handleSort_keeps_sort_invariant [OF h, of log_onFilterChange
        "\<lparr>filters_sort = Some ''username'', filters_status = None\<rparr>" "[]"]
      handleSort_keeps_sort_invariant [OF h, of log_onFilterChange
        "\<lparr>filters_sort = Some ''-username'', filters_status = None\<rparr>" "[]"]
      handleSort_keeps_sort_invariant [OF h, of log_onFilterChange
        "\<lparr>filters_sort = None, filters_status = None\<rparr>" "[]"]
    by (simp add: newSort_def log_onFilterChange_def)
qed

text \<open>
  The hypothesis of C6 is needed: a column name that already carries the marker can
  come back doubly negated.
\<close>

lemma handleSort_negated_column_example:
  "newSort \<lparr>filters_sort = Some ''-username'', filters_status = None\<rparr> ''-username''
     = ''--username''"
  by (simp add: newSort_def)



section \<open>The status filter\<close>

lemma handleStatusFilter_string:
  "handleStatusFilter onFilterChange (JString v) s =
     Inr (onFilterChange
            [(''status'', if v = [] then JUndefined
                          else if v = ''0'' then JString '''' else JString v)] s)"
  by (simp add: handleStatusFilter_def)

text \<open>
  C2. The claim: invoked with the string \<open>"0"\<close>, the handler emits a filter update whose
  status is \<^verbatim>\<open>undefined\<close>. The code does not: \<open>"0"\<close> has length 1, so the guard
  \<^verbatim>\<open>value.length > 0\<close> holds and the update carries \<^verbatim>\<open>newValue\<close>, the empty string. The
  guard tests \<^verbatim>\<open>value\<close> where the mapped \<^verbatim>\<open>newValue\<close> is meant; the sibling input \<open>""\<close>
  does reach \<^verbatim>\<open>undefined\<close> (C3).
\<close>

theorem handleStatusFilter_sentinel_emits_empty_string:
  "handleStatusFilter onFilterChange (JString ''0'') s
     = Inr (onFilterChange [(''status'', JString '''')] s) \<and>
   handleStatusFilter log_onFilterChange (JString ''0'') []
     = Inr [OnFilterChange [(''status'', JString '''')]] \<and>
   handleStatusFilter log_onFilterChange (JString ''0'') []
     \<noteq> Inr [OnFilterChange [(''status'', JUndefined)]]"
  by (simp add: handleStatusFilter_string log_onFilterChange_def)

text \<open>
  C3. Invoked with the empty string, the handler emits a filter update with status
  \<^verbatim>\<open>undefined\<close>; invoked with a non-empty string other than \<open>"0"\<close>, it emits a filter
  update whose status is that string, unchanged.
\<close>

theorem handleStatusFilter_empty_clears_other_passes:
  "handleStatusFilter onFilterChange (JString '''') s
     = Inr (onFilterChange [(''status'', JUndefined)] s) \<and>
   (v \<noteq> '''' \<and> v \<noteq> ''0'' \<longrightarrow>
      handleStatusFilter onFilterChange (JString v) s
        = Inr (onFilterChange [(''status'', JString v)] s))"
  by (simp add: handleStatusFilter_string)

theorem handleStatusFilter_empty_clears_other_passes_witness:
  "handleStatusFilter log_onFilterChange (JString '''') []
     = Inr [OnFilterChange [(''status'', JUndefined)]] \<and>
   ''1'' \<noteq> '''' \<and> ''1'' \<noteq> ''0'' \<and>
   handleStatusFilter log_onFilterChange (JString ''1'') []
     = Inr [OnFilterChange [(''status'', JString ''1'')]]"
  using handleStatusFilter_empty_clears_other_passes [of log_onFilterChange "[]" "''1''"]
  by (simp add: log_onFilterChange_def)

text \<open>
  C10. The sentinel is matched by exact string equality: for a non-empty string \<open>v\<close>
  the emitted status is \<open>v\<close> itself exactly when \<open>v\<close> is not the one-character string
  \<open>"0"\<close>. So \<open>"00"\<close> and \<open>" 0"\<close> pass through unchanged.
\<close>

theorem handleStatusFilter_sentinel_is_exact:
  assumes "v \<noteq> ''''"
  shows "(handleStatusFilter log_onFilterChange (JString v) log
            = Inr (log @ [OnFilterChange [(''status'', JString v)]])) = (v \<noteq> ''0'')"
  using assms by (auto simp: handleStatusFilter_string log_onFilterChange_def)

theorem handleStatusFilter_sentinel_is_exact_witness:
  "''00'' \<noteq> '''' \<and> '' 0'' \<noteq> '''' \<and> ''0'' \<noteq> '''' \<and>
   handleStatusFilter log_onFilterChange (JString ''00'') []
     = Inr [OnFilterChange [(''status'', JString ''00'')]] \<and>
   handleStatusFilter log_onFilterChange (JString '' 0'') []
     = Inr [OnFilterChange [(''status'', JString '' 0'')]] \<and>
   handleStatusFilter log_onFilterChange (JString ''0'') []
     \<noteq> Inr [OnFilterChange [(''status'', JString ''0'')]]"
  using handleStatusFilter_sentinel_is_exact [of "''00''" "[]"]
    handleStatusFilter_sentinel_is_exact [of "'' 0''" "[]"]
    handleStatusFilter_sentinel_is_exact [of "''0''" "[]"]
  by simp

text \<open>
  On \<^verbatim>\<open>undefined\<close> and \<^verbatim>\<open>null\<close> the status handler throws while it builds the
  argument, so the store receives nothing.
\<close>

lemma handleStatusFilter_nullish_throws:
  "handleStatusFilter onFilterChange JUndefined s = Inl TypeError"
  "handleStatusFilter onFilterChange JNull s = Inl TypeError"
  by (simp_all add: handleStatusFilter_def)

section \<open>What the handlers write\<close>

text \<open>
  C9. Each handler updates only its own filter field. For every current filters
  record and every column, \<open>handleSort\<close> is one call of \<open>onFilterChange\<close> on an object
  whose only property is \<open>sort\<close>. For every string, \<open>handleStatusFilter\<close> is one call
  of \<open>onFilterChange\<close> on an object whose only property is \<open>status\<close>. For a value of
  any other kind the status handler either does the same or throws before it reaches
  \<open>onFilterChange\<close>; no other field is ever written.
\<close>

theorem handlers_write_own_field_only:
  "(\<exists>p. map fst p = [''sort''] \<and>
         (\<forall>(onFilterChange :: partial_filters \<Rightarrow> 's \<Rightarrow> 's) s. handleSort onFilterChange filters column s = onFilterChange p s)) \<and>
   (\<exists>p. map fst p = [''status''] \<and>
         (\<forall>(onFilterChange :: partial_filters \<Rightarrow> 's \<Rightarrow> 's) s.
            handleStatusFilter onFilterChange (JString v) s = Inr (onFilterChange p s))) \<and>
   ((\<forall>(onFilterChange :: partial_filters \<Rightarrow> 's \<Rightarrow> 's) s. handleStatusFilter onFilterChange value s = Inl TypeError) \<or>
    (\<exists>p. map fst p = [''status''] \<and>
          (\<forall>(onFilterChange :: partial_filters \<Rightarrow> 's \<Rightarrow> 's) s.
             handleStatusFilter onFilterChange value s = Inr (onFilterChange p s))))"
proof -
  have a: "\<exists>p. map fst p = [''sort''] \<and>
             (\<forall>(onFilterChange :: partial_filters \<Rightarrow> 's \<Rightarrow> 's) s. handleSort onFilterChange filters column s = onFilterChange p s)"
    by (rule exI [of _ "[(''sort'', JString (newSort filters column))]"])
       (simp add: handleSort_def)
  have c: "(\<forall>(onFilterChange :: partial_filters \<Rightarrow> 's \<Rightarrow> 's) s. handleStatusFilter onFilterChange x s = Inl TypeError) \<or>
           (\<exists>p. map fst p = [''status''] \<and>
              (\<forall>(onFilterChange :: partial_filters \<Rightarrow> 's \<Rightarrow> 's) s.
                 handleStatusFilter onFilterChange x s = Inr (onFilterChange p s)))"
    for x
  proof (cases "get_length x")
    case (Inl e)
    then show ?thesis by (cases e) (simp add: handleStatusFilter_def)
  next
    case (Inr len)
    let ?p = "[(''status'', if greater_than_zero len
                 then (if strict_eq_string x ''0'' then JString [] else x) else JUndefined)]"
    have eq: "handleStatusFilter onFilterChange x s = Inr (onFilterChange ?p s)"
      for onFilterChange :: "partial_filters \<Rightarrow> 's \<Rightarrow> 's" and s
      using Inr by (simp add: handleStatusFilter_def)
    have "\<exists>p. map fst p = [''status''] \<and>
            (\<forall>(onFilterChange :: partial_filters \<Rightarrow> 's \<Rightarrow> 's) s.
               handleStatusFilter onFilterChange x s = Inr (onFilterChange p s))"
      by (rule exI [of _ ?p]) (simp add: eq)
    then show ?thesis by (rule disjI2)
  qed
  have b: "\<exists>p. map fst p = [''status''] \<and>
             (\<forall>(onFilterChange :: partial_filters \<Rightarrow> 's \<Rightarrow> 's) s.
                handleStatusFilter onFilterChange (JString v) s = Inr (onFilterChange p s))"
    by (rule exI [of _ "[(''status'', if v = [] then JUndefined
                          else if v = ''0'' then JString '''' else JString v)]"])
       (simp add: handleStatusFilter_string)
  show ?thesis using a b c [of "value"] by blast
qed

section \<open>The refetch trigger\<close>

lemma refetch_trigger_mount:
  "refetch_trigger refetchUsers filters None s = (refetchUsers s, Some [filters])"
  by (simp add: refetch_trigger_def useEffect_def)

lemma refetch_trigger_update:
  "refetch_trigger refetchUsers filters (Some [previous]) s =
     (if object_address filters = object_address previous then s else refetchUsers s,
      Some [filters])"
  by (simp add: refetch_trigger_def useEffect_def areHookInputsEqual_def object_is_def)

text \<open>
  A render that reads the same filters object as the render before it issues no
  request, whatever the object holds by then.
\<close>

lemma same_filters_object_issues_no_refetch:
  "object_address filters = object_address previous \<Longrightarrow>
     refetch_trigger log_refetchUsers filters (Some [previous]) log = (log, Some [filters])"
  by (simp add: refetch_trigger_update)

text \<open>
  Over a whole run of committed renders the requests add up to one per change of the
  filters object, no more and no fewer.
\<close>

lemma renders_after_mount:
  "renders log_refetchUsers rest (Some [current]) log =
     (log @ replicate (reference_changes current rest) RefetchUsers,
      Some [last (current # rest)])"
proof (induction rest arbitrary: current log)
  case Nil
  then show ?case by simp
next
  case (Cons filters rest)
  have l: "last (current # filters # rest) = last (filters # rest)"
    by simp
  show ?case
  proof (cases "object_address filters = object_address current")
    case True
    then have rc: "reference_changes current (filters # rest) = reference_changes filters rest"
      by simp
    have "renders log_refetchUsers (filters # rest) (Some [current]) log
            = renders log_refetchUsers rest (Some [filters]) log"
      using True by (simp add: refetch_trigger_update)
    also have "\<dots> = (log @ replicate (reference_changes filters rest) RefetchUsers,
                      Some [last (filters # rest)])"
      by (rule Cons.IH)
    finally show ?thesis
      by (simp only: l rc)
  next
    case False
    then have rc: "reference_changes current (filters # rest)
                     = 1 + reference_changes filters rest"
      by simp
    have app: "log_refetchUsers log @ replicate n RefetchUsers
                 = log @ replicate (1 + n) RefetchUsers" for n
      by (simp add: log_refetchUsers_def)
    have "renders log_refetchUsers (filters # rest) (Some [current]) log
            = renders log_refetchUsers rest (Some [filters]) (log_refetchUsers log)"
      using False by (simp add: refetch_trigger_update)
    also have "\<dots> = (log_refetchUsers log
                        @ replicate (reference_changes filters rest) RefetchUsers,
                      Some [last (filters # rest)])"
      by (rule Cons.IH)
    finally show ?thesis
      by (simp only: l rc app)
  qed
qed

lemma renders_from_mount:
  "renders log_refetchUsers (first # rest) None [] =
     (replicate (1 + reference_changes first rest) RefetchUsers,
      Some [last (first # rest)])"
proof -
  have "renders log_refetchUsers (first # rest) None []
          = renders log_refetchUsers rest (Some [first]) (log_refetchUsers [])"
    by (simp add: refetch_trigger_mount)
  also have "\<dots> = (log_refetchUsers []
                      @ replicate (reference_changes first rest) RefetchUsers,
                    Some [last (first # rest)])"
    by (rule renders_after_mount)
  finally show ?thesis
    by (simp add: log_refetchUsers_def)
qed





text \<open>
  C5. When the component mounts, exactly one \<open>refetchUsers\<close> request is issued,
  whatever the initial filters are, the empty record included: the first committed
  render runs the effect once, and nothing else has touched the store by then.
\<close>

theorem mount_issues_one_refetch:
  "refetch_trigger refetchUsers filters None s = (refetchUsers s, Some [filters]) \<and>
   refetch_trigger log_refetchUsers filters None [] = ([RefetchUsers], Some [filters]) \<and>
   renders log_refetchUsers [Object a \<lparr>filters_sort = None, filters_status = None\<rparr>] None []
     = ([RefetchUsers], Some [Object a \<lparr>filters_sort = None, filters_status = None\<rparr>])"
  by (simp add: refetch_trigger_mount log_refetchUsers_def)

section \<open>The column builder\<close>

text \<open>
  C7. The column builder, invoked as \<open>UsersTable\<close> invokes it, never throws: for every
  filters record, one whose \<open>sort\<close> is \<^verbatim>\<open>undefined\<close> included, it returns a list of
  column descriptors, one per column and in the order of the columns. With \<open>sort\<close>
  \<^verbatim>\<open>undefined\<close> no column is marked as sorted.
\<close>

theorem setupColumns_never_throws:
  "(\<exists>columns. UsersTable_columns table t dir onFilterChange filters = Inr columns \<and>
               map column_key columns = map fst table) \<and>
   (\<exists>columns. UsersTable_columns table t dir onFilterChange (filters\<lparr>filters_sort := None\<rparr>)
                 = Inr columns \<and>
               map column_key columns = map fst table \<and>
               map column_sort_state columns = replicate (length table) Unsorted)"
  by (simp add: UsersTable_columns_def setupColumns_def sort_state_of_def
        case_prod_beta comp_def map_replicate_const)

end
